theory Spec2Isabelle
  imports Main "HOL-Library.Sublist"
begin

section \<open>JavaScript values and errors\<close>

text \<open>
  Everything the pages receive from the server or from \<^verbatim>\<open>localStorage\<close> is the result
  of \<^verbatim>\<open>JSON.parse\<close> (or a text body), and TypeScript's annotations are erased at run
  time. The values are therefore modelled untyped. Numbers are the integral ones
  (fractions never occur in the code paths below; only whether a number is zero matters).
  The value \<^verbatim>\<open>undefined\<close> is the \<open>None\<close> of an optional value: it cannot occur inside
  parsed JSON.

  An object is the list of its fields in insertion order. When a key occurs twice the last
  one wins, as in \<^verbatim>\<open>JSON.parse\<close>.
\<close>

datatype json =
    Null
  | Bool bool
  | Num int
  | Str string
  | Arr "json list"
  | Obj "(string \<times> json) list"

datatype js_error =
    Error string
  | TypeError string
  | SyntaxError string

fun message :: "js_error \<Rightarrow> string" where
  "message (Error m) = m"
| "message (TypeError m) = m"
| "message (SyntaxError m) = m"

text \<open>Truthiness, as used by \<^verbatim>\<open>if (x)\<close>, \<^verbatim>\<open>x ? a : b\<close> and \<^verbatim>\<open>x || y\<close>.\<close>

fun truthy :: "json \<Rightarrow> bool" where
  "truthy Null = False"
| "truthy (Bool b) = b"
| "truthy (Num n) = (n \<noteq> 0)"
| "truthy (Str s) = (s \<noteq> [])"
| "truthy (Arr _) = True"
| "truthy (Obj _) = True"

definition truthy_opt :: "json option \<Rightarrow> bool" where
  "truthy_opt v = (case v of None \<Rightarrow> False | Some x \<Rightarrow> truthy x)"

text \<open>\<^verbatim>\<open>x || y\<close> where \<open>x\<close> may be \<^verbatim>\<open>undefined\<close> and \<open>y\<close> is a value.\<close>

definition js_or :: "json option \<Rightarrow> json \<Rightarrow> json" where
  "js_or x y = (case x of None \<Rightarrow> y | Some v \<Rightarrow> if truthy v then v else y)"

text \<open>
  Property read \<^verbatim>\<open>v.name\<close>. Reading a property of \<^verbatim>\<open>null\<close> throws a TypeError
  (the text of its message is the engine's and nothing below depends on it); on an object
  it is the field or \<^verbatim>\<open>undefined\<close>; on the other values it is \<^verbatim>\<open>undefined\<close> for every
  name the code reads (\<^verbatim>\<open>detail\<close>, \<^verbatim>\<open>report_md\<close>, \<^verbatim>\<open>ai_md\<close>, \<^verbatim>\<open>id\<close>, \<^verbatim>\<open>company\<close>,
  \<^verbatim>\<open>industry\<close>, \<^verbatim>\<open>created_at\<close>), none of which is a prototype property.
\<close>

fun get_prop :: "json \<Rightarrow> string \<Rightarrow> js_error + json option" where
  "get_prop Null name = Inl (TypeError (''Cannot read properties of null (reading '' @ name @ '')''))"
| "get_prop (Obj fs) name = Inr (map_of (rev fs) name)"
| "get_prop _ name = Inr None"

text \<open>
  Strict equality \<^verbatim>\<open>a === b\<close> of two property values. Primitives compare by value.
  Arrays and objects compare by identity; the two operands compared in the code always
  come from different allocations (one from the parsed history, one from the caller's
  item), so they are never identical.
\<close>

definition is_reference :: "json option \<Rightarrow> bool" where
  "is_reference v = (case v of Some (Arr _) \<Rightarrow> True | Some (Obj _) \<Rightarrow> True | _ \<Rightarrow> False)"

definition strict_eq :: "json option \<Rightarrow> json option \<Rightarrow> bool" where
  "strict_eq a b = (\<not> is_reference a \<and> a = b)"

text \<open>\<^verbatim>\<open>String.prototype.includes\<close>.\<close>

definition js_includes :: "string \<Rightarrow> string \<Rightarrow> bool" where
  "js_includes s t = list_ex (\<lambda>i. take (length t) (drop i s) = t) [0 ..< Suc (length s)]"

text \<open>A number inside a template literal: its decimal digits.\<close>

definition digit_char :: "nat \<Rightarrow> char" where
  "digit_char d = ''0123456789'' ! d"

fun show_nat :: "nat \<Rightarrow> string" where
  "show_nat n = (if n < 10 then [digit_char n] else show_nat (n div 10) @ [digit_char (n mod 10)])"

declare show_nat.simps [simp del]

section \<open>The platform\<close>

text \<open>
  What the browser provides: the network behind \<^verbatim>\<open>fetch\<close>, \<^verbatim>\<open>JSON.parse\<close>,
  \<^verbatim>\<open>JSON.stringify\<close> and the build-time variable \<^verbatim>\<open>VITE_API_BASE_URL\<close>. The code is
  modelled for any platform; what a theorem needs of it is a hypothesis.
  \<^verbatim>\<open>console\<close> output is not modelled.
\<close>

record RequestInit =
  http_method :: "string option"
  headers :: "(string \<times> string) list"
  body :: "(string \<times> string) list option"

record response =
  status :: nat
  statusText :: string
  content_type :: "string option"
  text_body :: string

text \<open>\<^verbatim>\<open>response.ok\<close> of the Fetch standard: a status in the range 200 to 299.\<close>

definition ok :: "response \<Rightarrow> bool" where
  "ok r = (200 \<le> status r \<and> status r \<le> 299)"

record platform =
  VITE_API_BASE_URL :: "string option"
  fetch :: "string \<Rightarrow> RequestInit \<Rightarrow> js_error + response"
  JSON_parse :: "string \<Rightarrow> js_error + json"
  JSON_stringify :: "json \<Rightarrow> string"

text \<open>\<^verbatim>\<open>response.json()\<close> parses the body text; \<^verbatim>\<open>response.text()\<close> is the body text.\<close>

definition response_json :: "platform \<Rightarrow> response \<Rightarrow> js_error + json" where
  "response_json P r = JSON_parse P (text_body r)"

section \<open>HTTP client wrapper (api/client.ts)\<close>

definition BASE_URL :: "platform \<Rightarrow> string" where
  "BASE_URL P =
     (case VITE_API_BASE_URL P of
        None \<Rightarrow> ''http://127.0.0.1:8000''
      | Some u \<Rightarrow> if u \<noteq> [] then u else ''http://127.0.0.1:8000'')"

definition no_options :: RequestInit where
  "no_options = \<lparr> http_method = None, headers = [], body = None \<rparr>"

text \<open>The \<^verbatim>\<open>config\<close> handed to \<^verbatim>\<open>fetch\<close>: the options with a copy of their headers.\<close>

definition request_config :: "RequestInit \<Rightarrow> RequestInit" where
  "request_config options = options \<lparr> headers := headers options \<rparr>"

text \<open>The message thrown for a response that is not ok.\<close>

definition error_message :: "platform \<Rightarrow> response \<Rightarrow> string" where
  "error_message P r =
     (let errorMessage = ''Error '' @ show_nat (status r) @ '': '' @ statusText r in
      case response_json P r of
        Inl e \<Rightarrow> errorMessage
      | Inr errorData \<Rightarrow>
          (case get_prop errorData ''detail'' of
             Inl e \<Rightarrow> errorMessage
           | Inr detail \<Rightarrow>
               if truthy_opt detail then
                 (case detail of
                    Some (Str s) \<Rightarrow> s
                  | Some d \<Rightarrow> JSON_stringify P d
                  | None \<Rightarrow> errorMessage)
               else errorMessage))"

definition request :: "platform \<Rightarrow> string \<Rightarrow> RequestInit \<Rightarrow> js_error + json" where
  "request P path options =
     (let url = BASE_URL P @ path;
          config = request_config options in
      case fetch P url config of
        Inl error \<Rightarrow> Inl error
      | Inr r \<Rightarrow>
          if \<not> ok r then Inl (Error (error_message P r))
          else
            (case content_type r of
               None \<Rightarrow> Inr (Str (text_body r))
             | Some contentType \<Rightarrow>
                 if contentType \<noteq> [] \<and> js_includes contentType ''application/json''
                 then response_json P r
                 else Inr (Str (text_body r))))"

section \<open>Remote assessment gateway (api/assessment.ts)\<close>

definition get_json_options :: RequestInit where
  "get_json_options =
     \<lparr> http_method = Some ''GET'', headers = [(''Accept'', ''application/json'')], body = None \<rparr>"

definition healthCheck :: "platform \<Rightarrow> js_error + json" where
  "healthCheck P = request P ''/api/health'' no_options"

definition createAssessment :: "platform \<Rightarrow> (string \<times> string) list \<Rightarrow> js_error + json" where
  "createAssessment P formData =
     request P ''/api/assessments'' \<lparr> http_method = Some ''POST'', headers = [], body = Some formData \<rparr>"

definition getAssessment :: "platform \<Rightarrow> string \<Rightarrow> js_error + json" where
  "getAssessment P ident = request P (''/api/assessments/'' @ ident) get_json_options"

definition getAssessmentReport :: "platform \<Rightarrow> string \<Rightarrow> js_error + json" where
  "getAssessmentReport P ident =
     (case request P (''/api/assessments/'' @ ident @ ''/report'') get_json_options of
        Inl e \<Rightarrow> Inl e
      | Inr r \<Rightarrow>
          (case get_prop r ''report_md'' of
             Inl e \<Rightarrow> Inl e
           | Inr report_md \<Rightarrow> Inr (js_or report_md (Str []))))"

definition getAssessmentAI :: "platform \<Rightarrow> string \<Rightarrow> js_error + json" where
  "getAssessmentAI P ident =
     (case request P (''/api/assessments/'' @ ident @ ''/ai'') get_json_options of
        Inl e \<Rightarrow> Inl e
      | Inr r \<Rightarrow>
          (case get_prop r ''ai_md'' of
             Inl e \<Rightarrow> Inl e
           | Inr ai_md \<Rightarrow> Inr (js_or ai_md (Str []))))"

section \<open>Local history store (utils/history.ts)\<close>

text \<open>
  \<^verbatim>\<open>localStorage\<close> is a map from keys to strings; \<^verbatim>\<open>getItem\<close> of an absent key is
  \<^verbatim>\<open>null\<close>. Its quota is not modelled: \<^verbatim>\<open>setItem\<close> always stores.
\<close>

type_synonym storage = "string \<rightharpoonup> string"

definition HISTORY_KEY :: string where
  "HISTORY_KEY = ''sme_assessment_history''"

text \<open>
  The whole body of \<^verbatim>\<open>getHistory\<close> is inside \<^verbatim>\<open>try\<close>: whatever \<^verbatim>\<open>JSON.parse\<close>
  throws becomes the empty array. What it returns is returned as it is.
\<close>

definition getHistory :: "platform \<Rightarrow> storage \<Rightarrow> json" where
  "getHistory P ls =
     (case ls HISTORY_KEY of
        None \<Rightarrow> Arr []
      | Some stored \<Rightarrow>
          if stored \<noteq> [] then
            (case JSON_parse P stored of Inl e \<Rightarrow> Arr [] | Inr v \<Rightarrow> v)
          else Arr [])"

text \<open>
  \<^verbatim>\<open>current.filter((h) => h.id !== item.id)\<close> on the elements of an array: the callback
  reads \<^verbatim>\<open>h.id\<close>, then \<^verbatim>\<open>item.id\<close>, and what it throws ends the filter.
\<close>

fun filter_other_ids :: "json \<Rightarrow> json list \<Rightarrow> js_error + json list" where
  "filter_other_ids item [] = Inr []"
| "filter_other_ids item (h # hs) =
     (case get_prop h ''id'' of
        Inl e \<Rightarrow> Inl e
      | Inr h_id \<Rightarrow>
          (case get_prop item ''id'' of
             Inl e \<Rightarrow> Inl e
           | Inr item_id \<Rightarrow>
               (case filter_other_ids item hs of
                  Inl e \<Rightarrow> Inl e
                | Inr kept \<Rightarrow> Inr (if \<not> strict_eq h_id item_id then h # kept else kept))))"

text \<open>
  \<^verbatim>\<open>addToHistory\<close> has no \<^verbatim>\<open>try\<close>. When \<^verbatim>\<open>getHistory\<close> returned something that is
  not an array, \<^verbatim>\<open>current.filter\<close> is not a function (or \<open>current\<close> is \<^verbatim>\<open>null\<close>) and
  the call throws a TypeError.
\<close>

definition addToHistory :: "platform \<Rightarrow> json \<Rightarrow> storage \<Rightarrow> js_error + storage" where
  "addToHistory P item ls =
     (case getHistory P ls of
        Arr current \<Rightarrow>
          (case filter_other_ids item current of
             Inl e \<Rightarrow> Inl e
           | Inr filtered \<Rightarrow>
               (let updated = Arr (item # filtered)
                in Inr (ls(HISTORY_KEY \<mapsto> JSON_stringify P updated))))
      | Null \<Rightarrow> Inl (TypeError ''Cannot read properties of null (reading filter)'')
      | _ \<Rightarrow> Inl (TypeError ''current.filter is not a function''))"

definition clearHistory :: "storage \<Rightarrow> storage" where
  "clearHistory ls = ls(HISTORY_KEY := None)"

section \<open>Result orchestration (pages/ResultsPage.tsx)\<close>

text \<open>The five state variables of the page, with their initial values.\<close>

record ResultsPage =
  data :: json
  reportMd :: json
  aiMd :: json
  loading :: bool
  error :: "string option"

definition initial_page :: ResultsPage where
  "initial_page = \<lparr> data = Null, reportMd = Str [], aiMd = Str [], loading = True, error = None \<rparr>"

text \<open>
  An object literal. A field whose value is \<^verbatim>\<open>undefined\<close> reads back as
  \<^verbatim>\<open>undefined\<close> and is left out by \<^verbatim>\<open>JSON.stringify\<close>; it is left out here.
\<close>

definition object_literal :: "(string \<times> json option) list \<Rightarrow> json" where
  "object_literal fs = Obj (List.map_filter (\<lambda>(k, v). map_option (Pair k) v) fs)"

text \<open>The argument of \<^verbatim>\<open>addToHistory\<close> in \<^verbatim>\<open>fetchData\<close>, built from the fetched record.\<close>

definition history_item :: "json \<Rightarrow> js_error + json" where
  "history_item assessment =
     (case get_prop assessment ''id'' of
        Inl e \<Rightarrow> Inl e
      | Inr v_id \<Rightarrow>
     (case get_prop assessment ''company'' of
        Inl e \<Rightarrow> Inl e
      | Inr v_company \<Rightarrow>
     (case get_prop assessment ''industry'' of
        Inl e \<Rightarrow> Inl e
      | Inr v_industry \<Rightarrow>
     (case get_prop assessment ''created_at'' of
        Inl e \<Rightarrow> Inl e
      | Inr v_created_at \<Rightarrow>
          Inr (object_literal
            [(''id'', v_id), (''company'', v_company),
             (''industry'', v_industry), (''created_at'', v_created_at)])))))"

text \<open>The \<^verbatim>\<open>catch\<close> and \<^verbatim>\<open>finally\<close> blocks of \<^verbatim>\<open>fetchData\<close>.\<close>

definition catch_finally :: "js_error \<Rightarrow> ResultsPage \<Rightarrow> ResultsPage" where
  "catch_finally err pg =
     pg \<lparr> loading := False,
          error := Some (if message err \<noteq> [] then message err
                         else ''Failed to load assessment results.'') \<rparr>"

text \<open>
  \<^verbatim>\<open>fetchData\<close>: the page state and the storage before, and after. The two guarded
  fetches of \<^verbatim>\<open>Promise.all\<close> share no state, so the order in which they settle does
  not show in the result.
\<close>

definition fetchData ::
  "platform \<Rightarrow> string \<Rightarrow> ResultsPage \<times> storage \<Rightarrow> ResultsPage \<times> storage" where
  "fetchData P ident s =
     (let pg = fst s; ls = snd s in
      (case getAssessment P ident of
         Inl err \<Rightarrow> (catch_finally err pg, ls)
       | Inr assessment \<Rightarrow>
           (let report = (case getAssessmentReport P ident of Inl err \<Rightarrow> Str [] | Inr r \<Rightarrow> r);
                ai = (case getAssessmentAI P ident of Inl err \<Rightarrow> Str [] | Inr r \<Rightarrow> r);
                pg1 = pg \<lparr> data := assessment, reportMd := report, aiMd := ai \<rparr>
            in (case history_item assessment of
                  Inl err \<Rightarrow> (catch_finally err pg1, ls)
                | Inr item \<Rightarrow>
                    (case addToHistory P item ls of
                       Inl err \<Rightarrow> (catch_finally err pg1, ls)
                     | Inr ls1 \<Rightarrow> (pg1 \<lparr> loading := False \<rparr>, ls1))))))"

section \<open>A reference codec\<close>

text \<open>
  A concrete \<^verbatim>\<open>JSON.stringify\<close> and \<^verbatim>\<open>JSON.parse\<close> for the values above, used to run
  the code on concrete inputs. The printer writes what \<^verbatim>\<open>JSON.stringify\<close> writes: no
  white space, the short escapes for backspace, tab, line feed, form feed and carriage
  return, \<^verbatim>\<open>\u00XX\<close> for the other control characters. The parser reads compact JSON
  texts with integral numbers; texts with white space, fractions or exponents are outside
  of it (it rejects them).
\<close>

definition hex_digit :: "nat \<Rightarrow> char" where
  "hex_digit d = ''0123456789abcdef'' ! d"

definition hex_val :: "char \<Rightarrow> nat option" where
  "hex_val c =
     (let n = of_char c :: nat in
      if 48 \<le> n \<and> n \<le> 57 then Some (n - 48)
      else if 97 \<le> n \<and> n \<le> 102 then Some (n - 87)
      else if 65 \<le> n \<and> n \<le> 70 then Some (n - 55)
      else None)"

definition escape_char :: "char \<Rightarrow> string" where
  "escape_char c =
     (if c = CHR 0x22 then [CHR 0x5C, CHR 0x22]
      else if c = CHR 0x5C then [CHR 0x5C, CHR 0x5C]
      else if c = CHR 0x08 then [CHR 0x5C, CHR ''b'']
      else if c = CHR 0x09 then [CHR 0x5C, CHR ''t'']
      else if c = CHR 0x0A then [CHR 0x5C, CHR ''n'']
      else if c = CHR 0x0C then [CHR 0x5C, CHR ''f'']
      else if c = CHR 0x0D then [CHR 0x5C, CHR ''r'']
      else if (of_char c :: nat) < 32 then
        [CHR 0x5C, CHR ''u'', CHR ''0'', CHR ''0'',
         hex_digit (of_char c div 16), hex_digit (of_char c mod 16)]
      else [c])"

definition quote :: "string \<Rightarrow> string" where
  "quote s = CHR 0x22 # concat (map escape_char s) @ [CHR 0x22]"

definition show_int :: "int \<Rightarrow> string" where
  "show_int i = (if i < 0 then CHR ''-'' # show_nat (nat (- i)) else show_nat (nat i))"

fun join_comma :: "string list \<Rightarrow> string" where
  "join_comma [] = []"
| "join_comma [x] = x"
| "join_comma (x # y # ys) = x @ CHR '','' # join_comma (y # ys)"

fun stringify :: "json \<Rightarrow> string" where
  "stringify Null = ''null''"
| "stringify (Bool b) = (if b then ''true'' else ''false'')"
| "stringify (Num i) = show_int i"
| "stringify (Str s) = quote s"
| "stringify (Arr vs) = CHR ''['' # join_comma (map stringify vs) @ '']''"
| "stringify (Obj fs) =
     CHR ''{'' # join_comma (map (\<lambda>kv. quote (fst kv) @ CHR '':'' # stringify (snd kv)) fs) @ ''}''"

definition unescape :: "char \<Rightarrow> char option" where
  "unescape e =
     (if e = CHR 0x22 then Some (CHR 0x22)
      else if e = CHR 0x5C then Some (CHR 0x5C)
      else if e = CHR ''/'' then Some (CHR ''/'')
      else if e = CHR ''b'' then Some (CHR 0x08)
      else if e = CHR ''t'' then Some (CHR 0x09)
      else if e = CHR ''n'' then Some (CHR 0x0A)
      else if e = CHR ''f'' then Some (CHR 0x0C)
      else if e = CHR ''r'' then Some (CHR 0x0D)
      else None)"

definition hex4 :: "char \<Rightarrow> char \<Rightarrow> char \<Rightarrow> char \<Rightarrow> nat option" where
  "hex4 a b c d =
     (case (hex_val a, hex_val b, hex_val c, hex_val d) of
        (Some x, Some y, Some z, Some w) \<Rightarrow> Some (((x * 16 + y) * 16 + z) * 16 + w)
      | _ \<Rightarrow> None)"

definition cons_fst :: "'a \<Rightarrow> ('a list \<times> 'b) option \<Rightarrow> ('a list \<times> 'b) option" where
  "cons_fst x r = map_option (\<lambda>p. (x # fst p, snd p)) r"

text \<open>The characters of a string literal after its opening quote, and what follows it.\<close>

fun parse_chars :: "string \<Rightarrow> (string \<times> string) option" where
  "parse_chars [] = None"
| "parse_chars (c # cs) =
     (if c = CHR 0x22 then Some ([], cs)
      else if c = CHR 0x5C then
        (case cs of
           [] \<Rightarrow> None
         | e # cs1 \<Rightarrow>
             if e = CHR ''u'' then
               (case cs1 of
                  h1 # h2 # h3 # h4 # cs2 \<Rightarrow>
                    (case hex4 h1 h2 h3 h4 of
                       None \<Rightarrow> None
                     | Some n \<Rightarrow> if n < 256 then cons_fst (char_of n) (parse_chars cs2) else None)
                | _ \<Rightarrow> None)
             else
               (case unescape e of
                  None \<Rightarrow> None
                | Some x \<Rightarrow> cons_fst x (parse_chars cs1)))
      else if (of_char c :: nat) < 32 then None
      else cons_fst c (parse_chars cs))"

definition is_digit :: "char \<Rightarrow> bool" where
  "is_digit c = (48 \<le> (of_char c :: nat) \<and> (of_char c :: nat) \<le> 57)"

definition digit_val :: "char \<Rightarrow> nat" where
  "digit_val c = of_char c - 48"

fun parse_digits :: "nat \<Rightarrow> string \<Rightarrow> nat \<times> string" where
  "parse_digits acc [] = (acc, [])"
| "parse_digits acc (c # cs) =
     (if is_digit c then parse_digits (10 * acc + digit_val c) cs else (acc, c # cs))"

text \<open>A JSON number has no leading zero.\<close>

definition parse_nat :: "string \<Rightarrow> (nat \<times> string) option" where
  "parse_nat cs =
     (case cs of
        [] \<Rightarrow> None
      | c # cs1 \<Rightarrow>
          if c = CHR ''0'' then
            (case cs1 of
               [] \<Rightarrow> Some (0, [])
             | d # cs2 \<Rightarrow> if is_digit d then None else Some (0, cs1))
          else if is_digit c then Some (parse_digits 0 cs)
          else None)"

definition keyword :: "string \<Rightarrow> json \<Rightarrow> string \<Rightarrow> (json \<times> string) option" where
  "keyword w v cs = (if take (length w) cs = w then Some (v, drop (length w) cs) else None)"

definition map_fst :: "('a \<Rightarrow> 'c) \<Rightarrow> ('a \<times> 'b) option \<Rightarrow> ('c \<times> 'b) option" where
  "map_fst f r = map_option (\<lambda>p. (f (fst p), snd p)) r"

text \<open>
  The recursive descent, with fuel: every call uses one unit, and a text of \<open>n\<close>
  characters is parsed with \<open>n\<close> units (enough for every text the printer writes, see
  \<open>parse_stringify\<close> below).
\<close>

fun parse_value :: "nat \<Rightarrow> string \<Rightarrow> (json \<times> string) option"
  and parse_elements :: "nat \<Rightarrow> string \<Rightarrow> (json list \<times> string) option"
  and parse_members :: "nat \<Rightarrow> string \<Rightarrow> ((string \<times> json) list \<times> string) option"
where
  "parse_value 0 cs = None"
| "parse_value (Suc n) cs =
     (case cs of
        [] \<Rightarrow> None
      | c # r \<Rightarrow>
          if c = CHR ''n'' then keyword ''ull'' Null r
          else if c = CHR ''t'' then keyword ''rue'' (Bool True) r
          else if c = CHR ''f'' then keyword ''alse'' (Bool False) r
          else if c = CHR 0x22 then map_fst Str (parse_chars r)
          else if c = CHR ''['' then
            (case r of
               [] \<Rightarrow> None
             | d # r1 \<Rightarrow> if d = CHR '']'' then Some (Arr [], r1) else map_fst Arr (parse_elements n r))
          else if c = CHR ''{'' then
            (case r of
               [] \<Rightarrow> None
             | d # r1 \<Rightarrow> if d = CHR ''}'' then Some (Obj [], r1) else map_fst Obj (parse_members n r))
          else if c = CHR ''-'' then map_fst (\<lambda>k. Num (- int k)) (parse_nat r)
          else map_fst (\<lambda>k. Num (int k)) (parse_nat cs))"
| "parse_elements 0 cs = None"
| "parse_elements (Suc n) cs =
     (case parse_value n cs of
        None \<Rightarrow> None
      | Some (v, r) \<Rightarrow>
          (case r of
             [] \<Rightarrow> None
           | c # r1 \<Rightarrow>
               if c = CHR '','' then cons_fst v (parse_elements n r1)
               else if c = CHR '']'' then Some ([v], r1)
               else None))"
| "parse_members 0 cs = None"
| "parse_members (Suc n) cs =
     (case cs of
        [] \<Rightarrow> None
      | q # r \<Rightarrow>
          if q \<noteq> CHR 0x22 then None
          else
            (case parse_chars r of
               None \<Rightarrow> None
             | Some (k, r1) \<Rightarrow>
                 (case r1 of
                    [] \<Rightarrow> None
                  | c # r2 \<Rightarrow>
                      if c \<noteq> CHR '':'' then None
                      else
                        (case parse_value n r2 of
                           None \<Rightarrow> None
                         | Some (v, r3) \<Rightarrow>
                             (case r3 of
                                [] \<Rightarrow> None
                              | c1 # r4 \<Rightarrow>
                                  if c1 = CHR '','' then cons_fst (k, v) (parse_members n r4)
                                  else if c1 = CHR ''}'' then Some ([(k, v)], r4)
                                  else None)))))"

definition parse :: "string \<Rightarrow> js_error + json" where
  "parse s =
     (case parse_value (length s) s of
        Some (v, []) \<Rightarrow> Inr v
      | _ \<Rightarrow> Inl (SyntaxError ''Unexpected token''))"

text \<open>The text of one member of an object, as the printer writes it.\<close>

definition member_text :: "string \<times> json \<Rightarrow> string" where
  "member_text kv = quote (fst kv) @ CHR '':'' # stringify (snd kv)"

text \<open>
  What the round trip of a value states: its text, followed by anything that does not
  continue a number, is parsed back to the value with any fuel that covers the text.
\<close>

definition parses :: "json \<Rightarrow> bool" where
  "parses v =
     (\<forall>n rest. length (stringify v) \<le> n \<longrightarrow> (rest = [] \<or> \<not> is_digit (hd rest))
        \<longrightarrow> parse_value n (stringify v @ rest) = Some (v, rest))"

text \<open>A browser with the reference codec, the default base address and a given network.\<close>

definition browser :: "(string \<Rightarrow> RequestInit \<Rightarrow> js_error + response) \<Rightarrow> platform" where
  "browser net =
     \<lparr> VITE_API_BASE_URL = None, fetch = net, JSON_parse = parse, JSON_stringify = stringify \<rparr>"

definition json_response :: "nat \<Rightarrow> string \<Rightarrow> json \<Rightarrow> response" where
  "json_response code reason v =
     \<lparr> status = code, statusText = reason,
       content_type = Some ''application/json'', text_body = stringify v \<rparr>"

section \<open>The data model of the specification\<close>

text \<open>
  \<^verbatim>\<open>HistoryItem\<close> of types.ts (the AssessmentSummary of the specification) and its
  run-time value; a history list is an array of them.
\<close>

record HistoryItem =
  item_id :: string
  company :: string
  industry :: string
  created_at :: string

definition item_json :: "HistoryItem \<Rightarrow> json" where
  "item_json s =
     Obj [(''id'', Str (item_id s)), (''company'', Str (company s)),
          (''industry'', Str (industry s)), (''created_at'', Str (created_at s))]"

definition history_json :: "HistoryItem list \<Rightarrow> json" where
  "history_json hs = Arr (map item_json hs)"

text \<open>
  A fetched value is an assessment record with summary \<open>s\<close>: its \<^verbatim>\<open>id\<close>,
  \<^verbatim>\<open>company\<close>, \<^verbatim>\<open>industry\<close> and \<^verbatim>\<open>created_at\<close> are the strings of \<open>s\<close> (what
  \<^verbatim>\<open>AssessmentResponse\<close> declares); its other fields are free.
\<close>

definition has_summary :: "json \<Rightarrow> HistoryItem \<Rightarrow> bool" where
  "has_summary a s =
     (get_prop a ''id'' = Inr (Some (Str (item_id s))) \<and>
      get_prop a ''company'' = Inr (Some (Str (company s))) \<and>
      get_prop a ''industry'' = Inr (Some (Str (industry s))) \<and>
      get_prop a ''created_at'' = Inr (Some (Str (created_at s))))"

text \<open>
  What the history store needs of the platform's codec: a history list that was written
  is read back as it was (and its text is not empty).
\<close>

definition codec_ok :: "platform \<Rightarrow> bool" where
  "codec_ok P =
     (\<forall>hs. JSON_stringify P (history_json hs) \<noteq> [] \<and>
           JSON_parse P (JSON_stringify P (history_json hs)) = Inr (history_json hs))"

text \<open>The list that \<^verbatim>\<open>insert(s)\<close> is specified to leave: \<open>s\<close> in front of the others.\<close>

definition inserted :: "HistoryItem \<Rightarrow> HistoryItem list \<Rightarrow> HistoryItem list" where
  "inserted s hs = s # filter (\<lambda>h. item_id h \<noteq> item_id s) hs"

text \<open>Several calls of \<^verbatim>\<open>addToHistory\<close>, one after the other; a throw ends them.\<close>

fun insert_all :: "platform \<Rightarrow> json list \<Rightarrow> storage \<Rightarrow> js_error + storage" where
  "insert_all P [] ls = Inr ls"
| "insert_all P (item # items) ls =
     (case addToHistory P item ls of
        Inl e \<Rightarrow> Inl e
      | Inr ls1 \<Rightarrow> insert_all P items ls1)"

text \<open>
  The \<^verbatim>\<open>detail\<close> of a response body: the field of the parsed body, when the body is JSON
  (and not \<^verbatim>\<open>null\<close>) and has one.
\<close>

definition body_detail :: "platform \<Rightarrow> response \<Rightarrow> json option" where
  "body_detail P r =
     (case response_json P r of
        Inl e \<Rightarrow> None
      | Inr v \<Rightarrow> (case get_prop v ''detail'' of Inl e \<Rightarrow> None | Inr d \<Rightarrow> d))"

definition status_message :: "response \<Rightarrow> string" where
  "status_message r = ''Error '' @ show_nat (status r) @ '': '' @ statusText r"

section \<open>Concrete servers\<close>

text \<open>Networks for running the code on concrete inputs.\<close>

definition not_found_server :: "string \<Rightarrow> RequestInit \<Rightarrow> js_error + response" where
  "not_found_server url config =
     Inr (json_response 404 ''Not Found'' (Obj [(''detail'', Str ''not found'')]))"

definition empty_detail_server :: "string \<Rightarrow> RequestInit \<Rightarrow> js_error + response" where
  "empty_detail_server url config =
     Inr (json_response 404 ''Not Found'' (Obj [(''detail'', Str [])]))"

definition offline :: "string \<Rightarrow> RequestInit \<Rightarrow> js_error + response" where
  "offline url config = Inl (TypeError ''Failed to fetch'')"

definition summary_a_X :: HistoryItem where
  "summary_a_X = \<lparr> item_id = ''a'', company = ''X'', industry = ''Retail'', created_at = ''2024-01-01'' \<rparr>"

definition summary_a_Y :: HistoryItem where
  "summary_a_Y = \<lparr> item_id = ''a'', company = ''Y'', industry = ''Retail'', created_at = ''2024-01-01'' \<rparr>"

definition summary_b :: HistoryItem where
  "summary_b = \<lparr> item_id = ''b'', company = ''Z'', industry = ''Services'', created_at = ''2024-02-02'' \<rparr>"

definition assessment_a1 :: json where
  "assessment_a1 =
     Obj [(''id'', Str ''a1''), (''company'', Str ''Acme''), (''industry'', Str ''Retail''),
          (''lang'', Str ''en''), (''created_at'', Str ''2024-03-01''), (''result_json'', Obj [])]"

definition summary_a1 :: HistoryItem where
  "summary_a1 =
     \<lparr> item_id = ''a1'', company = ''Acme'', industry = ''Retail'', created_at = ''2024-03-01'' \<rparr>"

text \<open>
  A server that knows the assessment \<^verbatim>\<open>a1\<close>; what the two text endpoints of \<^verbatim>\<open>a1\<close> do
  is a parameter. Every other address is a 404 with a \<^verbatim>\<open>detail\<close>.
\<close>

definition assessment_server ::
  "(js_error + response) \<Rightarrow> (js_error + response) \<Rightarrow> string \<Rightarrow> RequestInit \<Rightarrow> js_error + response"
where
  "assessment_server report ai url config =
     (if url = ''http://127.0.0.1:8000/api/assessments/a1'' then
        Inr (json_response 200 ''OK'' assessment_a1)
      else if url = ''http://127.0.0.1:8000/api/assessments/a1/report'' then report
      else if url = ''http://127.0.0.1:8000/api/assessments/a1/ai'' then ai
      else Inr (json_response 404 ''Not Found'' (Obj [(''detail'', Str ''not found'')])))"

definition report_envelope :: "string \<Rightarrow> response" where
  "report_envelope t = json_response 200 ''OK'' (Obj [(''id'', Str ''a1''), (''report_md'', Str t)])"

definition ai_envelope :: "string \<Rightarrow> response" where
  "ai_envelope t = json_response 200 ''OK'' (Obj [(''id'', Str ''a1''), (''ai_md'', Str t)])"

text \<open>A network that serves only requests carrying \<^verbatim>\<open>Accept: application/json\<close>.\<close>

definition accept_probe :: "string \<Rightarrow> RequestInit \<Rightarrow> js_error + response" where
  "accept_probe url config =
     (if map_of (headers config) ''Accept'' = Some ''application/json''
      then Inr (json_response 200 ''OK'' (Obj []))
      else Inl (Error ''request without Accept: application/json''))"

section \<open>The reference codec reads back what it writes\<close>



lemma digit_char_eq: "d < 10 \<Longrightarrow> of_char (digit_char d) = (48 + d :: nat)"
proof -
  assume "d < 10"
  then have "d \<in> {0,1,2,3,4,5,6,7,8,9}" by auto
  then show ?thesis by (auto simp: digit_char_def)
qed

lemma is_digit_digit_char: "d < 10 \<Longrightarrow> is_digit (digit_char d)"
  by (simp add: digit_char_eq is_digit_def)

lemma digit_val_digit_char: "d < 10 \<Longrightarrow> digit_val (digit_char d) = d"
  by (simp add: digit_char_eq digit_val_def)

lemma digit_char_zero: "d < 10 \<Longrightarrow> (digit_char d = CHR ''0'') = (d = 0)"
proof -
  assume "d < 10"
  then have "d \<in> {0,1,2,3,4,5,6,7,8,9}" by auto
  then show ?thesis by (auto simp: digit_char_def)
qed

lemma show_nat_digits: "list_all is_digit (show_nat n)"
proof (induction n rule: show_nat.induct)
  case (1 n)
  show ?case
  proof (cases "n < 10")
    case True
    then show ?thesis by (simp add: show_nat.simps [of n] is_digit_digit_char)
  next
    case False
    with 1 show ?thesis by (simp add: show_nat.simps [of n] is_digit_digit_char)
  qed
qed

lemma show_nat_nonempty: "show_nat n \<noteq> []"
  by (simp add: show_nat.simps [of n])

lemma parse_digits_append:
  "list_all is_digit ds \<Longrightarrow> parse_digits acc (ds @ rest) = parse_digits (foldl (\<lambda>a c. 10 * a + digit_val c) acc ds) rest"
  by (induction ds arbitrary: acc) auto

lemma foldl_show_nat:
  "foldl (\<lambda>a c. 10 * a + digit_val c) acc (show_nat n) = acc * 10 ^ length (show_nat n) + n"
proof (induction n arbitrary: acc rule: show_nat.induct)
  case (1 n)
  show ?case
  proof (cases "n < 10")
    case True
    then show ?thesis by (simp add: show_nat.simps [of n] digit_val_digit_char)
  next
    case False
    then have "foldl (\<lambda>a c. 10 * a + digit_val c) acc (show_nat (n div 10)) = acc * 10 ^ length (show_nat (n div 10)) + n div 10"
      using 1 by simp
    with False show ?thesis
      by (simp add: show_nat.simps [of n] digit_val_digit_char algebra_simps)
  qed
qed

lemma parse_digits_stop: "rest = [] \<or> \<not> is_digit (hd rest) \<Longrightarrow> parse_digits acc rest = (acc, rest)"
  by (cases rest) auto

lemma hd_show_nat_zero: "(hd (show_nat n) = CHR ''0'') = (n = 0)"
proof (induction n rule: show_nat.induct)
  case (1 n)
  show ?case
  proof (cases "n < 10")
    case True
    then show ?thesis by (simp add: show_nat.simps [of n] digit_char_zero)
  next
    case False
    with 1 show ?thesis by (simp add: show_nat.simps [of n] show_nat_nonempty)
  qed
qed

lemma show_nat_0: "show_nat 0 = ''0''"
  by (simp add: show_nat.simps digit_char_def)

lemma parse_nat_show_nat:
  assumes "rest = [] \<or> \<not> is_digit (hd rest)"
  shows "parse_nat (show_nat n @ rest) = Some (n, rest)"
proof (cases "n = 0")
  case True
  with assms show ?thesis by (cases rest) (auto simp: show_nat_0 parse_nat_def)
next
  case False
  obtain c cs where cs: "show_nat n = c # cs" using show_nat_nonempty by (cases "show_nat n") auto
  have c0: "c \<noteq> CHR ''0''" using hd_show_nat_zero [of n] False cs by simp
  have cd: "is_digit c" using show_nat_digits [of n] cs by simp
  have "parse_digits 0 (show_nat n @ rest) = (n, rest)"
    using assms by (simp add: parse_digits_append show_nat_digits foldl_show_nat parse_digits_stop)
  with c0 cd cs show ?thesis by (simp add: parse_nat_def)
qed



lemma hex_val_hex_digit: "d < 16 \<Longrightarrow> hex_val (hex_digit d) = Some d"
proof -
  assume "d < 16"
  then have "d = 0 \<or> d = 1 \<or> d = 2 \<or> d = 3 \<or> d = 4 \<or> d = 5 \<or> d = 6 \<or> d = 7 \<or> d = 8
    \<or> d = 9 \<or> d = 10 \<or> d = 11 \<or> d = 12 \<or> d = 13 \<or> d = 14 \<or> d = 15" by arith
  then show ?thesis by (auto simp: hex_digit_def hex_val_def)
qed

lemma hex_val_zero: "hex_val (CHR ''0'') = Some 0"
  by (simp add: hex_val_def)

lemma hex4_control:
  "n < 256 \<Longrightarrow> hex4 (CHR ''0'') (CHR ''0'') (hex_digit (n div 16)) (hex_digit (n mod 16)) = Some n"
  by (simp add: hex4_def hex_val_zero hex_val_hex_digit less_mult_imp_div_less)

lemma of_char_less: "(of_char (c :: char) :: nat) < 256"
  by simp

lemma parse_chars_escape_char:
  "parse_chars (escape_char c @ rest) = cons_fst c (parse_chars rest)"
proof -
  consider (named) "c \<in> {CHR 0x22, CHR 0x5C, CHR 0x08, CHR 0x09, CHR 0x0A, CHR 0x0C, CHR 0x0D}"
    | (control) "c \<notin> {CHR 0x22, CHR 0x5C, CHR 0x08, CHR 0x09, CHR 0x0A, CHR 0x0C, CHR 0x0D}" "(of_char c :: nat) < 32"
    | (plain) "c \<notin> {CHR 0x22, CHR 0x5C, CHR 0x08, CHR 0x09, CHR 0x0A, CHR 0x0C, CHR 0x0D}" "\<not> (of_char c :: nat) < 32"
    by blast
  then show ?thesis
  proof cases
    case named
    then show ?thesis by (auto simp: escape_char_def unescape_def)
  next
    case control
    then show ?thesis
      by (simp add: escape_char_def hex4_control of_char_less)
  next
    case plain
    then show ?thesis by (simp add: escape_char_def)
  qed
qed

lemma parse_chars_concat:
  "parse_chars (concat (map escape_char s) @ CHR 0x22 # rest) = Some (s, rest)"
  by (induction s) (simp_all add: parse_chars_escape_char cons_fst_def)

lemma quote_cons: "quote s @ rest = CHR 0x22 # concat (map escape_char s) @ CHR 0x22 # rest"
  by (simp add: quote_def)


lemma is_digit_distinct:
  "is_digit c \<Longrightarrow> c \<noteq> CHR ''n'' \<and> c \<noteq> CHR ''t'' \<and> c \<noteq> CHR ''f'' \<and> c \<noteq> CHR 0x22 \<and> c \<noteq> CHR ''[''
     \<and> c \<noteq> CHR ''{'' \<and> c \<noteq> CHR ''-'' \<and> c \<noteq> CHR '']'' \<and> c \<noteq> CHR ''}''"
  by (auto simp: is_digit_def)

lemma show_nat_cons: "\<exists>c cs. show_nat k = c # cs \<and> is_digit c"
  using show_nat_nonempty [of k] show_nat_digits [of k] by (cases "show_nat k") auto

lemma parse_value_Num:
  assumes "rest = [] \<or> \<not> is_digit (hd rest)"
  shows "parse_value (Suc m) (show_int i @ rest) = Some (Num i, rest)"
proof (cases "i < 0")
  case True
  then show ?thesis
    using parse_nat_show_nat [OF assms, of "nat (- i)"] by (simp add: show_int_def map_fst_def)
next
  case False
  obtain c cs where c: "show_nat (nat i) = c # cs" "is_digit c" using show_nat_cons by blast
  have "parse_value (Suc m) ((c # cs) @ rest) = map_fst (\<lambda>k. Num (int k)) (parse_nat ((c # cs) @ rest))"
    using is_digit_distinct [OF c(2)] by simp
  with False c(1) parse_nat_show_nat [OF assms, of "nat i"] show ?thesis
    by (simp add: show_int_def map_fst_def)
qed

lemma stringify_first:
  "\<exists>c cs. stringify v = c # cs \<and> c \<noteq> CHR '']'' \<and> c \<noteq> CHR ''}''"
proof (cases v)
  case (Num i)
  obtain c cs where c: "show_nat (nat (- i)) = c # cs" "is_digit c" using show_nat_cons by blast
  obtain d ds where d: "show_nat (nat i) = d # ds" "is_digit d" using show_nat_cons by blast
  from Num c d is_digit_distinct [OF d(2)] show ?thesis by (simp add: show_int_def)
qed (simp_all add: quote_def)

lemma length_stringify_pos: "0 < length (stringify v)"
  using stringify_first [of v] by auto


lemma parsesD:
  "parses v \<Longrightarrow> length (stringify v) \<le> n \<Longrightarrow> rest = [] \<or> \<not> is_digit (hd rest)
     \<Longrightarrow> parse_value n (stringify v @ rest) = Some (v, rest)"
  unfolding parses_def by blast

lemma not_digit_sep: "\<not> is_digit (CHR '','')" "\<not> is_digit (CHR '']'')" "\<not> is_digit (CHR ''}'')"
  by (simp_all add: is_digit_def)

lemma join_comma_cons: "ys \<noteq> [] \<Longrightarrow> join_comma (x # ys) = x @ CHR '','' # join_comma ys"
  by (cases ys) simp_all

lemma parse_elements_join:
  assumes "\<forall>v \<in> set vs. parses v" and "vs \<noteq> []"
    and "length (join_comma (map stringify vs)) < m"
  shows "parse_elements m (join_comma (map stringify vs) @ CHR '']'' # rest) = Some (vs, rest)"
  using assms
proof (induction vs arbitrary: m)
  case Nil
  then show ?case by simp
next
  case (Cons v vs)
  from Cons.prems(3) obtain k where m: "m = Suc k" by (cases m) auto
  have pv: "parses v" using Cons.prems(1) by simp
  show ?case
  proof (cases vs)
    case Nil
    have "parse_value k (stringify v @ CHR '']'' # rest) = Some (v, CHR '']'' # rest)"
      using Cons.prems(3) m Nil by (intro parsesD [OF pv]) (simp_all add: not_digit_sep)
    with m Nil show ?thesis by simp
  next
    case (Cons w ws)
    have 1: "parse_value k (stringify v @ CHR '','' # join_comma (map stringify vs) @ CHR '']'' # rest)
        = Some (v, CHR '','' # join_comma (map stringify vs) @ CHR '']'' # rest)"
      using Cons.prems(3) m Cons by (intro parsesD [OF pv]) (simp_all add: not_digit_sep)
    have 2: "parse_elements k (join_comma (map stringify vs) @ CHR '']'' # rest) = Some (vs, rest)"
      using Cons.prems m Cons by (intro Cons.IH) simp_all
    from 1 2 m Cons show ?thesis by (simp add: cons_fst_def)
  qed
qed


lemma member_text_pair: "member_text (k, v) = quote k @ CHR '':'' # stringify v"
  by (simp add: member_text_def)

lemma parse_members_join:
  assumes "\<forall>kv \<in> set fs. parses (snd kv)" and "fs \<noteq> []"
    and "length (join_comma (map member_text fs)) < m"
  shows "parse_members m (join_comma (map member_text fs) @ CHR ''}'' # rest) = Some (fs, rest)"
  using assms
proof (induction fs arbitrary: m)
  case Nil
  then show ?case by simp
next
  case (Cons kv fs)
  from Cons.prems(3) obtain n where m: "m = Suc n" by (cases m) auto
  obtain k v where kv: "kv = (k, v)" by (cases kv)
  have pv: "parses v" using Cons.prems(1) kv by simp
  show ?case
  proof (cases fs)
    case Nil
    have "parse_value n (stringify v @ CHR ''}'' # rest) = Some (v, CHR ''}'' # rest)"
      using Cons.prems(3) m Nil kv
      by (intro parsesD [OF pv]) (simp_all add: not_digit_sep member_text_pair)
    with m Nil kv show ?thesis
      by (simp add: member_text_pair quote_def parse_chars_concat)
  next
    case (Cons g gs)
    have 1: "parse_value n (stringify v @ CHR '','' # join_comma (map member_text fs) @ CHR ''}'' # rest)
        = Some (v, CHR '','' # join_comma (map member_text fs) @ CHR ''}'' # rest)"
      using Cons.prems(3) m Cons kv
      by (intro parsesD [OF pv]) (simp_all add: not_digit_sep member_text_pair)
    have 2: "parse_members n (join_comma (map member_text fs) @ CHR ''}'' # rest) = Some (fs, rest)"
      using Cons.prems m Cons by (intro Cons.IH) simp_all
    have fs: "map member_text fs \<noteq> []" using Cons by simp
    from 1 2 m kv show ?thesis
      by (simp add: join_comma_cons [OF fs] member_text_pair quote_def parse_chars_concat cons_fst_def)
  qed
qed

lemma parses_all: "parses v"
proof (induction v)
  case Null
  show ?case unfolding parses_def
  proof (intro allI impI)
    fix n rest assume "length (stringify Null) \<le> n"
    then obtain m where "n = Suc m" by (cases n) auto
    then show "parse_value n (stringify Null @ rest) = Some (Null, rest)"
      by (simp add: keyword_def)
  qed
next
  case (Bool b)
  show ?case unfolding parses_def
  proof (intro allI impI)
    fix n rest assume "length (stringify (Bool b)) \<le> n"
    then obtain m where "n = Suc m" by (cases n) (auto split: if_splits)
    then show "parse_value n (stringify (Bool b) @ rest) = Some (Bool b, rest)"
      by (simp add: keyword_def)
  qed
next
  case (Num i)
  show ?case unfolding parses_def
  proof (intro allI impI)
    fix n rest assume "length (stringify (Num i)) \<le> n" and r: "rest = [] \<or> \<not> is_digit (hd rest)"
    then obtain m where "n = Suc m" using length_stringify_pos [of "Num i"] by (cases n) auto
    then show "parse_value n (stringify (Num i) @ rest) = Some (Num i, rest)"
      using parse_value_Num [OF r] by simp
  qed
next
  case (Str s)
  show ?case unfolding parses_def
  proof (intro allI impI)
    fix n rest assume "length (stringify (Str s)) \<le> n"
    then obtain m where "n = Suc m" by (cases n) (auto simp: quote_def)
    then show "parse_value n (stringify (Str s) @ rest) = Some (Str s, rest)"
      by (simp add: quote_def parse_chars_concat map_fst_def)
  qed
next
  case (Arr vs)
  show ?case unfolding parses_def
  proof (intro allI impI)
    fix n rest assume len: "length (stringify (Arr vs)) \<le> n"
    then obtain m where m: "n = Suc m" by (cases n) auto
    show "parse_value n (stringify (Arr vs) @ rest) = Some (Arr vs, rest)"
    proof (cases vs)
      case Nil
      with m show ?thesis by simp
    next
      case (Cons w ws)
      obtain c cs where c: "stringify w = c # cs" "c \<noteq> CHR '']''"
        using stringify_first [of w] by blast
      have hd: "\<exists>d r1. join_comma (map stringify vs) @ CHR '']'' # rest = d # r1 \<and> d \<noteq> CHR '']''"
        using Cons c by (cases ws) simp_all
      have "parse_elements m (join_comma (map stringify vs) @ CHR '']'' # rest) = Some (vs, rest)"
        using Arr len m Cons by (intro parse_elements_join) simp_all
      with m hd show ?thesis by (auto simp: map_fst_def)
    qed
  qed
next
  case (Obj fs)
  have ih: "\<forall>kv \<in> set fs. parses (snd kv)"
    using Obj by (auto simp: snds.simps)
  show ?case unfolding parses_def
  proof (intro allI impI)
    fix n rest assume len: "length (stringify (Obj fs)) \<le> n"
    then obtain m where m: "n = Suc m" by (cases n) auto
    have otext: "stringify (Obj fs) = CHR ''{'' # join_comma (map member_text fs) @ ''}''"
      by (simp add: member_text_def [abs_def])
    show "parse_value n (stringify (Obj fs) @ rest) = Some (Obj fs, rest)"
    proof (cases fs)
      case Nil
      with m show ?thesis by simp
    next
      case (Cons g gs)
      have hd: "\<exists>d r1. join_comma (map member_text fs) @ CHR ''}'' # rest = d # r1 \<and> d \<noteq> CHR ''}''"
        using Cons by (cases gs) (simp_all add: member_text_def quote_def)
      have "parse_members m (join_comma (map member_text fs) @ CHR ''}'' # rest) = Some (fs, rest)"
        using ih len m Cons unfolding otext by (intro parse_members_join) simp_all
      with m hd show ?thesis unfolding otext by (auto simp: map_fst_def)
    qed
  qed
qed

lemma parse_stringify: "parse (stringify v) = Inr v"
  using parsesD [OF parses_all, of v "length (stringify v)" "[]"] by (simp add: parse_def)


section \<open>HTTP client wrapper: failures\<close>

lemma browser_simps:
  "fetch (browser net) = net" "JSON_parse (browser net) = parse"
  "JSON_stringify (browser net) = stringify" "BASE_URL (browser net) = ''http://127.0.0.1:8000''"
  by (simp_all add: browser_def BASE_URL_def)

lemma json_response_simps:
  "status (json_response c t v) = c" "statusText (json_response c t v) = t"
  "content_type (json_response c t v) = Some ''application/json''"
  "response_json (browser net) (json_response c t v) = Inr v"
  by (simp_all add: json_response_def response_json_def browser_def parse_stringify)

lemma js_includes_self: "js_includes s s"
  unfolding js_includes_def list_ex_iff by (rule bexI [of _ 0]) simp_all

lemma js_includes_empty: "js_includes s []"
  unfolding js_includes_def list_ex_iff by (rule bexI [of _ 0]) simp_all

lemma request_not_ok:
  assumes "fetch P (BASE_URL P @ path) (request_config options) = Inr r" and "\<not> ok r"
  shows "request P path options = Inl (Error (error_message P r))"
  using assms by (simp add: request_def)

lemma error_message_cases:
  "error_message P r =
     (case body_detail P r of
        None \<Rightarrow> status_message r
      | Some d \<Rightarrow> if truthy d then (case d of Str s \<Rightarrow> s | _ \<Rightarrow> JSON_stringify P d)
                  else status_message r)"
  by (auto simp: error_message_def body_detail_def status_message_def truthy_opt_def Let_def
      split: sum.splits option.splits json.splits)

text \<open>
  C4 (as amended). A response that is not ok always makes \<^verbatim>\<open>request\<close> fail with an
  \<^verbatim>\<open>Error\<close>. Its message is the body's \<^verbatim>\<open>detail\<close> when the body is JSON with a
  truthy \<^verbatim>\<open>detail\<close>: the string itself when it is a (non-empty) string, its
  \<^verbatim>\<open>JSON.stringify\<close> text otherwise. In every other case (no JSON body, a body
  without \<^verbatim>\<open>detail\<close>, or a falsy \<^verbatim>\<open>detail\<close> such as the empty string, 0, false or
  null) it is "Error <status>: <statusText>".
\<close>

theorem request_failure_message:
  assumes "fetch P (BASE_URL P @ path) (request_config options) = Inr r" and "\<not> ok r"
  shows "\<exists>m. request P path options = Inl (Error m) \<and>
     (\<forall>s. body_detail P r = Some (Str s) \<and> s \<noteq> [] \<longrightarrow> m = s) \<and>
     (\<forall>d. body_detail P r = Some d \<and> truthy d \<and> (\<forall>s. d \<noteq> Str s) \<longrightarrow> m = JSON_stringify P d) \<and>
     (body_detail P r = None \<or> (\<exists>d. body_detail P r = Some d \<and> \<not> truthy d)
        \<longrightarrow> m = ''Error '' @ show_nat (status r) @ '': '' @ statusText r)"
proof (intro exI conjI)
  show "request P path options = Inl (Error (error_message P r))"
    using assms by (rule request_not_ok)
  show "\<forall>s. body_detail P r = Some (Str s) \<and> s \<noteq> [] \<longrightarrow> error_message P r = s"
    by (simp add: error_message_cases)
  show "\<forall>d. body_detail P r = Some d \<and> truthy d \<and> (\<forall>s. d \<noteq> Str s) \<longrightarrow> error_message P r = JSON_stringify P d"
    by (auto simp: error_message_cases split: json.splits)
  show "body_detail P r = None \<or> (\<exists>d. body_detail P r = Some d \<and> \<not> truthy d)
      \<longrightarrow> error_message P r = ''Error '' @ show_nat (status r) @ '': '' @ statusText r"
    by (auto simp: error_message_cases status_message_def)
qed

lemma show_nat_404: "show_nat 404 = ''404''"
  by (simp add: show_nat.simps digit_char_def)

text \<open>The theorem at a 404 whose body is \<^verbatim>\<open>{"detail":"not found"}\<close>.\<close>

theorem request_failure_message_witness:
  "\<not> ok (json_response 404 ''Not Found'' (Obj [(''detail'', Str ''not found'')])) \<and>
   body_detail (browser not_found_server) (json_response 404 ''Not Found'' (Obj [(''detail'', Str ''not found'')]))
     = Some (Str ''not found'') \<and>
   request (browser not_found_server) ''/api/assessments/zz'' get_json_options = Inl (Error ''not found'')"
proof -
  let ?r = "json_response 404 ''Not Found'' (Obj [(''detail'', Str ''not found'')])"
  have f: "fetch (browser not_found_server) (BASE_URL (browser not_found_server) @ ''/api/assessments/zz'')
      (request_config get_json_options) = Inr ?r"
    by (simp add: browser_simps not_found_server_def)
  have nok: "\<not> ok ?r" by (simp add: ok_def json_response_simps)
  have d: "body_detail (browser not_found_server) ?r = Some (Str ''not found'')"
    by (simp add: body_detail_def json_response_simps)
  from request_failure_message [OF f nok] d nok show ?thesis by auto
qed

text \<open>
  C4 as stated fails: for a 404 whose body is \<^verbatim>\<open>{"detail":""}\<close> the body is JSON and
  contains a string \<^verbatim>\<open>detail\<close>, yet the message is the status text, not that string.
\<close>

theorem detail_used_as_is_counterexample:
  "\<not> ok (json_response 404 ''Not Found'' (Obj [(''detail'', Str [])])) \<and>
   response_json (browser empty_detail_server) (json_response 404 ''Not Found'' (Obj [(''detail'', Str [])]))
     = Inr (Obj [(''detail'', Str [])]) \<and>
   get_prop (Obj [(''detail'', Str [])]) ''detail'' = Inr (Some (Str [])) \<and>
   request (browser empty_detail_server) ''/api/assessments/zz'' get_json_options
     = Inl (Error ''Error 404: Not Found'') \<and>
   request (browser empty_detail_server) ''/api/assessments/zz'' get_json_options \<noteq> Inl (Error [])"
  by (simp add: request_def browser_simps empty_detail_server_def ok_def json_response_simps
      error_message_def truthy_opt_def show_nat_404)

section \<open>Local history store\<close>

lemma codec_ok_browser: "codec_ok (browser net)"
  using length_stringify_pos by (simp add: codec_ok_def browser_simps parse_stringify)

lemma get_prop_item_id: "get_prop (item_json s) ''id'' = Inr (Some (Str (item_id s)))"
  by (simp add: item_json_def)

lemma strict_eq_Str: "strict_eq (Some (Str a)) (Some (Str b)) = (a = b)"
  by (simp add: strict_eq_def is_reference_def)

lemma filter_other_ids_items:
  "filter_other_ids (item_json s) (map item_json hs)
     = Inr (map item_json (filter (\<lambda>h. item_id h \<noteq> item_id s) hs))"
  by (induction hs) (simp_all add: get_prop_item_id strict_eq_Str)

lemma getHistory_written:
  "codec_ok P \<Longrightarrow> getHistory P (ls(HISTORY_KEY \<mapsto> JSON_stringify P (history_json hs))) = history_json hs"
  by (simp add: getHistory_def codec_ok_def)

lemma addToHistory_items:
  assumes "getHistory P ls = history_json hs"
  shows "addToHistory P (item_json s) ls
     = Inr (ls(HISTORY_KEY \<mapsto> JSON_stringify P (history_json (inserted s hs))))"
  using assms
  by (simp add: addToHistory_def history_json_def filter_other_ids_items inserted_def)

lemma getHistory_unreadable:
  assumes "ls HISTORY_KEY = None \<or> (\<exists>s e. ls HISTORY_KEY = Some s \<and> JSON_parse P s = Inl e)"
  shows "getHistory P ls = Arr []"
  using assms by (auto simp: getHistory_def)

lemma inserted_distinct:
  "distinct (map item_id hs) \<Longrightarrow> distinct (map item_id (inserted s hs))"
  by (auto simp: inserted_def distinct_map_filter)

lemma inserted_once: "length (filter (\<lambda>h. item_id h = item_id s) (inserted s hs)) = 1"
  by (simp add: inserted_def filter_filter)

text \<open>
  C10. \<^verbatim>\<open>getHistory\<close> does not check the shape of what it read: whenever the stored
  string is not empty and parses as JSON, the parsed value is returned as it is, array or
  not.
\<close>

theorem getHistory_returns_parsed_value:
  assumes "ls HISTORY_KEY = Some stored" and "stored \<noteq> []" and "JSON_parse P stored = Inr v"
  shows "getHistory P ls = v"
  using assms by (simp add: getHistory_def)

lemma parse_42: "parse ''42'' = Inr (Num 42)"
  using parse_stringify [of "Num 42"] by (simp add: show_int_def show_nat.simps digit_char_def)

text \<open>
  With the stored string \<^verbatim>\<open>42\<close> the read returns the number 42, which is not a list (and
  the next \<^verbatim>\<open>addToHistory\<close> throws).
\<close>

theorem getHistory_returns_parsed_value_witness:
  "getHistory (browser offline) [HISTORY_KEY \<mapsto> ''42''] = Num 42 \<and> Num 42 \<noteq> Arr [] \<and>
   addToHistory (browser offline) (item_json summary_b) [HISTORY_KEY \<mapsto> ''42'']
     = Inl (TypeError ''current.filter is not a function'')"
proof -
  have "getHistory (browser offline) [HISTORY_KEY \<mapsto> ''42''] = Num 42"
    by (rule getHistory_returns_parsed_value [where stored = "''42''"])
       (simp_all add: browser_simps parse_42)
  then show ?thesis by (simp add: addToHistory_def)
qed

text \<open>
  C5. When nothing is stored under the history key, or what is stored does not parse,
  \<^verbatim>\<open>getHistory\<close> returns the empty list (it cannot throw: its result is a value), and
  an \<^verbatim>\<open>addToHistory\<close> right after it succeeds and writes exactly what it writes into a
  cleared storage: the list of the one item, which is then what is read back.
\<close>

theorem corrupt_history_is_empty:
  assumes "ls HISTORY_KEY = None \<or> (\<exists>s e. ls HISTORY_KEY = Some s \<and> JSON_parse P s = Inl e)"
  shows "getHistory P ls = Arr [] \<and>
     addToHistory P item ls = Inr (ls(HISTORY_KEY \<mapsto> JSON_stringify P (Arr [item]))) \<and>
     addToHistory P item (clearHistory ls)
       = Inr ((clearHistory ls)(HISTORY_KEY \<mapsto> JSON_stringify P (Arr [item]))) \<and>
     (codec_ok P \<longrightarrow>
        (\<forall>s ls1. addToHistory P (item_json s) ls = Inr ls1 \<longrightarrow> getHistory P ls1 = history_json [s]))"
proof -
  have e: "getHistory P ls = Arr []" using assms by (rule getHistory_unreadable)
  have c: "getHistory P (clearHistory ls) = Arr []"
    by (rule getHistory_unreadable) (simp add: clearHistory_def)
  have h: "getHistory P ls = history_json []" using e by (simp add: history_json_def)
  show ?thesis
    using e c addToHistory_items [OF h] getHistory_written [of P ls]
    by (auto simp: addToHistory_def inserted_def)
qed

lemma parse_corrupt: "parse ''{oops'' = Inl (SyntaxError ''Unexpected token'')"
  by (simp add: parse_def numeral_eq_Suc map_fst_def)


text \<open>The theorem at the corrupt stored string \<^verbatim>\<open>{oops\<close>.\<close>

theorem corrupt_history_is_empty_witness:
  "getHistory (browser offline) [HISTORY_KEY \<mapsto> ''{oops''] = Arr [] \<and>
   addToHistory (browser offline) (item_json summary_b) [HISTORY_KEY \<mapsto> ''{oops'']
     = Inr [HISTORY_KEY \<mapsto> stringify (Arr [item_json summary_b])] \<and>
   getHistory (browser offline) [HISTORY_KEY \<mapsto> stringify (Arr [item_json summary_b])]
     = history_json [summary_b]"
proof -
  let ?ls = "[HISTORY_KEY \<mapsto> ''{oops'']"
  have c: "?ls HISTORY_KEY = None \<or>
      (\<exists>s e. ?ls HISTORY_KEY = Some s \<and> JSON_parse (browser offline) s = Inl e)"
    by (simp add: browser_simps parse_corrupt)
  from corrupt_history_is_empty [where ls = ?ls and P = "browser offline" and item = "item_json summary_b"]
    c codec_ok_browser [of offline]
  show ?thesis by (simp add: browser_simps history_json_def)
qed

text \<open>
  C6. On a history list without duplicate ids, \<^verbatim>\<open>addToHistory\<close> of a summary \<open>s\<close>
  succeeds, and the list read back afterwards is \<open>s\<close> followed by the old entries with
  another id: it has no duplicate ids, exactly one entry with the id of \<open>s\<close>, that entry
  is \<open>s\<close> itself, and it is at the front.
\<close>

theorem insert_keeps_ids_unique:
  assumes "codec_ok P" and "getHistory P ls = history_json hs" and "distinct (map item_id hs)"
  shows "\<exists>ls1 hs1. addToHistory P (item_json s) ls = Inr ls1 \<and>
     getHistory P ls1 = history_json hs1 \<and>
     hs1 = s # filter (\<lambda>h. item_id h \<noteq> item_id s) hs \<and>
     distinct (map item_id hs1) \<and>
     filter (\<lambda>h. item_id h = item_id s) hs1 = [s] \<and>
     hd hs1 = s"
proof (intro exI conjI)
  show "addToHistory P (item_json s) ls
      = Inr (ls(HISTORY_KEY \<mapsto> JSON_stringify P (history_json (inserted s hs))))"
    using assms(2) by (rule addToHistory_items)
  show "getHistory P (ls(HISTORY_KEY \<mapsto> JSON_stringify P (history_json (inserted s hs))))
      = history_json (inserted s hs)"
    using assms(1) by (rule getHistory_written)
  show "inserted s hs = s # filter (\<lambda>h. item_id h \<noteq> item_id s) hs"
    by (simp add: inserted_def)
  show "distinct (map item_id (inserted s hs))"
    using assms(3) by (rule inserted_distinct)
  show "filter (\<lambda>h. item_id h = item_id s) (inserted s hs) = [s]"
    by (simp add: inserted_def)
  show "hd (inserted s hs) = s"
    by (simp add: inserted_def)
qed

text \<open>
  Inserting \<^verbatim>\<open>{id: "a", company: "X"}\<close> and then \<^verbatim>\<open>{id: "a", company: "Y"}\<close> leaves
  the one entry for "a", with company "Y".
\<close>

theorem insert_keeps_ids_unique_witness:
  "addToHistory (browser offline) (item_json summary_a_X) Map.empty
     = Inr [HISTORY_KEY \<mapsto> stringify (history_json [summary_a_X])] \<and>
   addToHistory (browser offline) (item_json summary_a_Y)
       [HISTORY_KEY \<mapsto> stringify (history_json [summary_a_X])]
     = Inr [HISTORY_KEY \<mapsto> stringify (history_json [summary_a_Y])] \<and>
   getHistory (browser offline) [HISTORY_KEY \<mapsto> stringify (history_json [summary_a_Y])]
     = history_json [summary_a_Y] \<and>
   company summary_a_Y = ''Y''"
proof -
  let ?P = "browser offline"
  let ?ls = "[HISTORY_KEY \<mapsto> stringify (history_json [summary_a_X])]"
  have ok: "codec_ok ?P" by (rule codec_ok_browser)
  have e: "getHistory ?P Map.empty = history_json []"
    by (simp add: getHistory_def history_json_def)
  have first: "addToHistory ?P (item_json summary_a_X) Map.empty = Inr ?ls"
    using addToHistory_items [OF e, of summary_a_X] by (simp add: inserted_def browser_simps)
  have g: "getHistory ?P ?ls = history_json [summary_a_X]"
    using getHistory_written [OF ok, of Map.empty "[summary_a_X]"] by (simp add: browser_simps)
  have d: "distinct (map item_id [summary_a_X])" by simp
  have same: "item_id summary_a_X = item_id summary_a_Y"
    by (simp add: summary_a_X_def summary_a_Y_def)
  have y: "company summary_a_Y = ''Y''" by (simp add: summary_a_Y_def)
  have second: "addToHistory ?P (item_json summary_a_Y) ?ls
      = Inr [HISTORY_KEY \<mapsto> stringify (history_json [summary_a_Y])]"
    using addToHistory_items [OF g, of summary_a_Y] by (simp add: inserted_def same browser_simps)
  from insert_keeps_ids_unique [OF ok g d, of summary_a_Y] first second
  show ?thesis
    by (auto simp: same y)
qed

lemma insert_all_items:
  assumes "codec_ok P"
  shows "getHistory P ls = history_json hs \<Longrightarrow> distinct (map item_id items)
     \<Longrightarrow> \<forall>x \<in> set items. \<forall>h \<in> set hs. item_id h \<noteq> item_id x
     \<Longrightarrow> \<exists>ls1. insert_all P (map item_json items) ls = Inr ls1 \<and>
           getHistory P ls1 = history_json (rev items @ hs)"
proof (induction items arbitrary: ls hs)
  case Nil
  then show ?case by simp
next
  case (Cons x xs)
  let ?ls = "ls(HISTORY_KEY \<mapsto> JSON_stringify P (history_json (inserted x hs)))"
  have keep: "inserted x hs = x # hs"
    using Cons.prems(3) by (auto simp: inserted_def filter_id_conv)
  have a: "addToHistory P (item_json x) ls = Inr ?ls"
    using Cons.prems(1) by (rule addToHistory_items)
  have g: "getHistory P ?ls = history_json (x # hs)"
    using getHistory_written [OF assms, of ls "inserted x hs"] keep by simp
  have d: "distinct (map item_id xs)" using Cons.prems(2) by simp
  have dis: "\<forall>y \<in> set xs. \<forall>h \<in> set (x # hs). item_id h \<noteq> item_id y"
    using Cons.prems(2,3) by auto
  have "\<exists>ls1. insert_all P (map item_json xs) ?ls = Inr ls1 \<and>
      getHistory P ls1 = history_json (rev xs @ x # hs)"
    using g d dis by (rule Cons.IH)
  with a show ?case by simp
qed

text \<open>
  C7. Inserting summaries with pairwise distinct ids, in order, into a store without a
  history succeeds, and the read afterwards returns exactly these summaries in reverse
  order of insertion, without duplicates.
\<close>

theorem inserts_read_back_reversed:
  assumes "codec_ok P" and "ls HISTORY_KEY = None" and "distinct (map item_id items)"
  shows "\<exists>ls1. insert_all P (map item_json items) ls = Inr ls1 \<and>
     getHistory P ls1 = history_json (rev items) \<and>
     distinct (map item_id (rev items)) \<and> length (rev items) = length items"
proof -
  have e: "getHistory P ls = history_json []"
    using assms(2) by (simp add: getHistory_def history_json_def)
  from insert_all_items [OF assms(1) e assms(3)] assms(3) show ?thesis
    by (simp add: distinct_rev rev_map [symmetric])
qed

text \<open>Two inserts, "a" and then "b": the read returns "b", "a".\<close>

theorem inserts_read_back_reversed_witness:
  "insert_all (browser offline) (map item_json [summary_a_X, summary_b]) Map.empty
     = Inr [HISTORY_KEY \<mapsto> stringify (history_json [summary_b, summary_a_X])] \<and>
   getHistory (browser offline) [HISTORY_KEY \<mapsto> stringify (history_json [summary_b, summary_a_X])]
     = history_json [summary_b, summary_a_X]"
proof -
  let ?P = "browser offline"
  have ok: "codec_ok ?P" by (rule codec_ok_browser)
  have d: "distinct (map item_id [summary_a_X, summary_b])"
    by (simp add: summary_a_X_def summary_b_def)
  have e: "getHistory ?P Map.empty = history_json []"
    by (simp add: getHistory_def history_json_def)
  have g: "getHistory ?P [HISTORY_KEY \<mapsto> stringify (history_json [summary_a_X])]
      = history_json [summary_a_X]"
    using getHistory_written [OF ok, of Map.empty "[summary_a_X]"] by (simp add: browser_simps)
  have ne: "item_id summary_a_X \<noteq> item_id summary_b"
    by (simp add: summary_a_X_def summary_b_def)
  have run: "insert_all ?P (map item_json [summary_a_X, summary_b]) Map.empty
      = Inr [HISTORY_KEY \<mapsto> stringify (history_json [summary_b, summary_a_X])]"
    by (simp add: addToHistory_items [OF e] addToHistory_items [OF g] inserted_def browser_simps ne)
  from inserts_read_back_reversed [OF ok _ d, of Map.empty] run show ?thesis by auto
qed

lemma request_json_ok:
  assumes "net (''http://127.0.0.1:8000'' @ path) (request_config options)
      = Inr (json_response 200 ''OK'' v)"
  shows "request (browser net) path options = Inr v"
  using assms
  by (simp add: request_def browser_simps ok_def json_response_simps js_includes_self)

lemma request_rejected:
  assumes "fetch P (BASE_URL P @ path) (request_config options) = Inl e"
  shows "request P path options = Inl e"
  using assms by (simp add: request_def)

section \<open>Remote assessment gateway: the two text operations\<close>

text \<open>
  C8. Whatever envelope the request returns, \<^verbatim>\<open>getAssessmentReport\<close> returns the empty
  string, and does not fail, when the envelope's \<^verbatim>\<open>report_md\<close> is absent or the empty
  string, and returns the field unchanged when it is a non-empty string; the same holds
  for \<^verbatim>\<open>getAssessmentAI\<close> and \<^verbatim>\<open>ai_md\<close>.
\<close>

theorem text_fetches_normalise_missing_field:
  "(\<forall>envelope. request P (''/api/assessments/'' @ i @ ''/report'') get_json_options = Inr envelope \<longrightarrow>
      (get_prop envelope ''report_md'' = Inr None \<or> get_prop envelope ''report_md'' = Inr (Some (Str []))
         \<longrightarrow> getAssessmentReport P i = Inr (Str [])) \<and>
      (\<forall>t. t \<noteq> [] \<and> get_prop envelope ''report_md'' = Inr (Some (Str t))
         \<longrightarrow> getAssessmentReport P i = Inr (Str t))) \<and>
   (\<forall>envelope. request P (''/api/assessments/'' @ i @ ''/ai'') get_json_options = Inr envelope \<longrightarrow>
      (get_prop envelope ''ai_md'' = Inr None \<or> get_prop envelope ''ai_md'' = Inr (Some (Str []))
         \<longrightarrow> getAssessmentAI P i = Inr (Str [])) \<and>
      (\<forall>t. t \<noteq> [] \<and> get_prop envelope ''ai_md'' = Inr (Some (Str t))
         \<longrightarrow> getAssessmentAI P i = Inr (Str t)))"
  by (auto simp: getAssessmentReport_def getAssessmentAI_def js_or_def)

lemma a1_urls:
  "''http://127.0.0.1:8000'' @ ''/api/assessments/'' @ ''a1'' = ''http://127.0.0.1:8000/api/assessments/a1''"
  "''http://127.0.0.1:8000'' @ ''/api/assessments/'' @ ''a1'' @ ''/report'' = ''http://127.0.0.1:8000/api/assessments/a1/report''"
  "''http://127.0.0.1:8000'' @ ''/api/assessments/'' @ ''a1'' @ ''/ai'' = ''http://127.0.0.1:8000/api/assessments/a1/ai''"
  by simp_all

lemma server_a1:
  "assessment_server report ai ''http://127.0.0.1:8000/api/assessments/a1'' config
     = Inr (json_response 200 ''OK'' assessment_a1)"
  "assessment_server report ai ''http://127.0.0.1:8000/api/assessments/a1/report'' config = report"
  "assessment_server report ai ''http://127.0.0.1:8000/api/assessments/a1/ai'' config = ai"
  by (simp_all add: assessment_server_def)

lemma request_a1:
  "request (browser (assessment_server report ai)) ''/api/assessments/a1'' get_json_options
     = Inr assessment_a1"
  by (rule request_json_ok) (simp add: server_a1)

lemma request_a1_report:
  "request (browser (assessment_server (Inr (json_response 200 ''OK'' v)) ai))
     ''/api/assessments/a1/report'' get_json_options = Inr v"
  by (rule request_json_ok) (simp add: server_a1)

lemma request_a1_ai:
  "request (browser (assessment_server report (Inr (json_response 200 ''OK'' v))))
     ''/api/assessments/a1/ai'' get_json_options = Inr v"
  by (rule request_json_ok) (simp add: server_a1)

text \<open>
  A report envelope without \<^verbatim>\<open>report_md\<close> gives the empty string; an AI envelope with
  a text gives the text.
\<close>

theorem text_fetches_normalise_missing_field_witness:
  "getAssessmentReport (browser (assessment_server
       (Inr (json_response 200 ''OK'' (Obj [(''id'', Str ''a1'')]))) (Inr (ai_envelope ''Narrative''))))
     ''a1'' = Inr (Str []) \<and>
   getAssessmentAI (browser (assessment_server
       (Inr (json_response 200 ''OK'' (Obj [(''id'', Str ''a1'')]))) (Inr (ai_envelope ''Narrative''))))
     ''a1'' = Inr (Str ''Narrative'')"
  using text_fetches_normalise_missing_field
    [of "browser (assessment_server
       (Inr (json_response 200 ''OK'' (Obj [(''id'', Str ''a1'')]))) (Inr (ai_envelope ''Narrative'')))" "''a1''"]
  by (simp add: request_a1_report request_a1_ai ai_envelope_def)

section \<open>Remote assessment gateway: the Accept header\<close>

text \<open>
  C9 fails on the code for two of the five operations. On a network that serves only
  requests carrying \<^verbatim>\<open>Accept: application/json\<close>, \<^verbatim>\<open>healthCheck\<close> and
  \<^verbatim>\<open>createAssessment\<close> are turned away: they call \<^verbatim>\<open>request\<close> without headers.
  \<^verbatim>\<open>getAssessment\<close>, \<^verbatim>\<open>getAssessmentReport\<close> and \<^verbatim>\<open>getAssessmentAI\<close> are
  served: they send the header.
\<close>

theorem health_and_create_send_no_accept_header:
  "healthCheck (browser accept_probe) = Inl (Error ''request without Accept: application/json'') \<and>
   createAssessment (browser accept_probe) formData
     = Inl (Error ''request without Accept: application/json'') \<and>
   getAssessment (browser accept_probe) i = Inr (Obj []) \<and>
   getAssessmentReport (browser accept_probe) i = Inr (Str []) \<and>
   getAssessmentAI (browser accept_probe) i = Inr (Str [])"
proof -
  have h: "request (browser accept_probe) path get_json_options = Inr (Obj [])" for path
    by (rule request_json_ok)
       (simp add: accept_probe_def request_config_def get_json_options_def)
  have n: "request (browser accept_probe) path (options \<lparr> headers := [] \<rparr>)
      = Inl (Error ''request without Accept: application/json'')" for path options
    by (rule request_rejected) (simp add: browser_simps accept_probe_def request_config_def)
  show ?thesis
    using n [of "''/api/health''" no_options]
      n [of "''/api/assessments''" "\<lparr> http_method = Some ''POST'', headers = [], body = Some formData \<rparr>"]
    by (simp add: healthCheck_def createAssessment_def getAssessment_def getAssessmentReport_def
        getAssessmentAI_def h no_options_def js_or_def)
qed


section \<open>Result orchestration\<close>

lemma history_item_summary: "has_summary a s \<Longrightarrow> history_item a = Inr (item_json s)"
  by (simp add: has_summary_def history_item_def object_literal_def item_json_def List.map_filter_simps)

lemma fetchData_recorded:
  assumes "getAssessment P i = Inr a" and "has_summary a s" and "getHistory P ls = history_json hs"
  shows "fetchData P i (pg, ls) =
     (pg \<lparr> data := a,
           reportMd := (case getAssessmentReport P i of Inl e \<Rightarrow> Str [] | Inr t \<Rightarrow> t),
           aiMd := (case getAssessmentAI P i of Inl e \<Rightarrow> Str [] | Inr t \<Rightarrow> t),
           loading := False \<rparr>,
      ls(HISTORY_KEY \<mapsto> JSON_stringify P (history_json (inserted s hs))))"
  using assms(1) history_item_summary [OF assms(2)] addToHistory_items [OF assms(3), of s]
  by (simp add: fetchData_def Let_def)

lemma fetchData_failed:
  assumes "getAssessment P i = Inl err"
  shows "fetchData P i (pg, ls) = (catch_finally err pg, ls)"
  using assms by (simp add: fetchData_def)

lemma error_message_includes_detail:
  assumes "body_detail P r = Some (Str d)"
  shows "error_message P r \<noteq> [] \<and> js_includes (error_message P r) d"
proof (cases "d = []")
  case True
  with assms show ?thesis
    by (simp add: error_message_cases status_message_def js_includes_empty)
next
  case False
  with assms show ?thesis
    by (simp add: error_message_cases js_includes_self)
qed

text \<open>
  C2. When \<^verbatim>\<open>getAssessment\<close> fails, \<^verbatim>\<open>fetchData\<close> ends with the error state set
  (the error's message, or a fixed text when that is empty), nothing else of the page
  changed but \<^verbatim>\<open>loading\<close>, and the storage exactly as it was: \<^verbatim>\<open>addToHistory\<close> was
  not called. When the failure is a response that is not ok whose JSON body has a string
  \<^verbatim>\<open>detail\<close>, the error state's message contains that string.
\<close>

theorem canonical_failure_is_fatal:
  assumes "getAssessment P i = Inl err"
  shows "fetchData P i (pg, ls) =
       (pg \<lparr> loading := False,
             error := Some (if message err \<noteq> [] then message err
                            else ''Failed to load assessment results.'') \<rparr>, ls) \<and>
     (\<forall>r d. fetch P (BASE_URL P @ ''/api/assessments/'' @ i) (request_config get_json_options) = Inr r
          \<and> \<not> ok r \<and> body_detail P r = Some (Str d)
        \<longrightarrow> (\<exists>m. error (fst (fetchData P i (pg, ls))) = Some m \<and> js_includes m d))"
proof (intro conjI allI impI)
  show "fetchData P i (pg, ls) =
       (pg \<lparr> loading := False,
             error := Some (if message err \<noteq> [] then message err
                            else ''Failed to load assessment results.'') \<rparr>, ls)"
    using assms by (simp add: fetchData_failed catch_finally_def)
next
  fix r d
  assume a: "fetch P (BASE_URL P @ ''/api/assessments/'' @ i) (request_config get_json_options) = Inr r
      \<and> \<not> ok r \<and> body_detail P r = Some (Str d)"
  then have "getAssessment P i = Inl (Error (error_message P r))"
    by (simp add: getAssessment_def request_not_ok)
  with assms have e: "err = Error (error_message P r)" by simp
  from a have "error_message P r \<noteq> [] \<and> js_includes (error_message P r) d"
    by (simp add: error_message_includes_detail)
  with e assms show "\<exists>m. error (fst (fetchData P i (pg, ls))) = Some m \<and> js_includes m d"
    by (simp add: fetchData_failed catch_finally_def)
qed

lemma request_zz:
  "request (browser (assessment_server report ai)) ''/api/assessments/zz'' get_json_options
     = Inl (Error ''not found'')"
proof -
  let ?r = "json_response 404 ''Not Found'' (Obj [(''detail'', Str ''not found'')])"
  have f: "fetch (browser (assessment_server report ai))
      (BASE_URL (browser (assessment_server report ai)) @ ''/api/assessments/zz'')
      (request_config get_json_options) = Inr ?r"
    by (simp add: browser_simps assessment_server_def)
  have nok: "\<not> ok ?r" by (simp add: ok_def json_response_simps)
  have "error_message (browser (assessment_server report ai)) ?r = ''not found''"
    by (simp add: error_message_cases body_detail_def json_response_simps)
  with request_not_ok [OF f nok] show ?thesis by simp
qed

text \<open>
  An unknown id: the server answers 404 with \<^verbatim>\<open>{"detail":"not found"}\<close>; the page shows
  "not found" and the stored history is untouched.
\<close>

theorem canonical_failure_is_fatal_witness:
  "getAssessment (browser (assessment_server (Inr (report_envelope ''Report'')) (Inr (ai_envelope ''Narrative''))))
     ''zz'' = Inl (Error ''not found'') \<and>
   fetchData (browser (assessment_server (Inr (report_envelope ''Report'')) (Inr (ai_envelope ''Narrative''))))
     ''zz'' (initial_page, [HISTORY_KEY \<mapsto> stringify (history_json [summary_b])])
   = (\<lparr> data = Null, reportMd = Str [], aiMd = Str [], loading = False, error = Some ''not found'' \<rparr>,
      [HISTORY_KEY \<mapsto> stringify (history_json [summary_b])])"
proof -
  let ?P = "browser (assessment_server (Inr (report_envelope ''Report'')) (Inr (ai_envelope ''Narrative'')))"
  have g: "getAssessment ?P ''zz'' = Inl (Error ''not found'')"
    by (simp add: getAssessment_def request_zz)
  from canonical_failure_is_fatal [OF g, of initial_page "[HISTORY_KEY \<mapsto> stringify (history_json [summary_b])]"] g
  show ?thesis by (simp add: initial_page_def)
qed

lemma fetchData_slots:
  assumes "getAssessment P i = Inr a"
  shows "data (fst (fetchData P i (pg, ls))) = a \<and>
     reportMd (fst (fetchData P i (pg, ls)))
       = (case getAssessmentReport P i of Inl e \<Rightarrow> Str [] | Inr t \<Rightarrow> t) \<and>
     aiMd (fst (fetchData P i (pg, ls)))
       = (case getAssessmentAI P i of Inl e \<Rightarrow> Str [] | Inr t \<Rightarrow> t) \<and>
     \<not> loading (fst (fetchData P i (pg, ls)))"
  using assms by (simp add: fetchData_def Let_def catch_finally_def split: sum.splits)

text \<open>
  C3 (as amended). When \<^verbatim>\<open>getAssessment\<close> succeeds, \<^verbatim>\<open>fetchData\<close> delivers the
  fetched record and ends loading, and each text slot is the empty string when its own
  fetch failed and the fetched text otherwise, independently of the other slot and of
  everything else. When moreover the fetched value is an assessment record and the stored
  history is a history list, no error is set and the record's summary is recorded at the
  front of the history.
\<close>

theorem auxiliary_failures_are_isolated:
  assumes "getAssessment P i = Inr a"
  shows "data (fst (fetchData P i (pg, ls))) = a \<and>
     \<not> loading (fst (fetchData P i (pg, ls))) \<and>
     (\<forall>e. getAssessmentReport P i = Inl e \<longrightarrow> reportMd (fst (fetchData P i (pg, ls))) = Str []) \<and>
     (\<forall>t. getAssessmentReport P i = Inr t \<longrightarrow> reportMd (fst (fetchData P i (pg, ls))) = t) \<and>
     (\<forall>e. getAssessmentAI P i = Inl e \<longrightarrow> aiMd (fst (fetchData P i (pg, ls))) = Str []) \<and>
     (\<forall>t. getAssessmentAI P i = Inr t \<longrightarrow> aiMd (fst (fetchData P i (pg, ls))) = t) \<and>
     (has_summary a s \<and> codec_ok P \<and> getHistory P ls = history_json hs \<longrightarrow>
        error (fst (fetchData P i (pg, ls))) = error pg \<and>
        getHistory P (snd (fetchData P i (pg, ls)))
          = history_json (s # filter (\<lambda>h. item_id h \<noteq> item_id s) hs))"
proof -
  have rec: "error (fst (fetchData P i (pg, ls))) = error pg \<and>
      getHistory P (snd (fetchData P i (pg, ls)))
        = history_json (s # filter (\<lambda>h. item_id h \<noteq> item_id s) hs)"
    if h: "has_summary a s" "codec_ok P" "getHistory P ls = history_json hs"
    using fetchData_recorded [OF assms h(1) h(3), of pg]
      getHistory_written [OF h(2), of ls "inserted s hs"]
    by (simp add: inserted_def)
  from fetchData_slots [OF assms, of pg ls] rec show ?thesis by auto
qed

lemma has_summary_a1: "has_summary assessment_a1 summary_a1"
  by (simp add: has_summary_def assessment_a1_def summary_a1_def)

lemma getAssessment_a1:
  "getAssessment (browser (assessment_server report ai)) ''a1'' = Inr assessment_a1"
  by (simp add: getAssessment_def request_a1)

lemma getHistory_empty: "getHistory P Map.empty = history_json []"
  by (simp add: getHistory_def history_json_def)

text \<open>
  The report fetch fails with a network error, the AI fetch succeeds: the page has the
  record, an empty report, the AI text, and the history has the entry.
\<close>

theorem auxiliary_failures_are_isolated_witness:
  "getAssessmentReport (browser (assessment_server (Inl (TypeError ''Failed to fetch'')) (Inr (ai_envelope ''Narrative''))))
     ''a1'' = Inl (TypeError ''Failed to fetch'') \<and>
   fetchData (browser (assessment_server (Inl (TypeError ''Failed to fetch'')) (Inr (ai_envelope ''Narrative''))))
     ''a1'' (initial_page, Map.empty)
   = (\<lparr> data = assessment_a1, reportMd = Str [], aiMd = Str ''Narrative'', loading = False, error = None \<rparr>,
      [HISTORY_KEY \<mapsto> stringify (history_json [summary_a1])]) \<and>
   getHistory (browser (assessment_server (Inl (TypeError ''Failed to fetch'')) (Inr (ai_envelope ''Narrative''))))
     [HISTORY_KEY \<mapsto> stringify (history_json [summary_a1])] = history_json [summary_a1]"
proof -
  let ?P = "browser (assessment_server (Inl (TypeError ''Failed to fetch'')) (Inr (ai_envelope ''Narrative'')))"
  have r: "getAssessmentReport ?P ''a1'' = Inl (TypeError ''Failed to fetch'')"
    by (simp add: getAssessmentReport_def request_rejected browser_simps server_a1)
  have n: "getAssessmentAI ?P ''a1'' = Inr (Str ''Narrative'')"
    by (simp add: getAssessmentAI_def ai_envelope_def request_a1_ai js_or_def)
  have f: "fetchData ?P ''a1'' (initial_page, Map.empty)
      = (\<lparr> data = assessment_a1, reportMd = Str [], aiMd = Str ''Narrative'', loading = False, error = None \<rparr>,
         [HISTORY_KEY \<mapsto> stringify (history_json [summary_a1])])"
    using fetchData_recorded [OF getAssessment_a1 has_summary_a1 getHistory_empty, of _ _ initial_page]
    by (simp add: r n initial_page_def inserted_def browser_simps)
  have g: "getAssessment ?P ''a1'' = Inr assessment_a1" by (rule getAssessment_a1)
  have h: "has_summary assessment_a1 summary_a1 \<and> codec_ok ?P \<and>
      getHistory ?P Map.empty = history_json []"
    by (simp add: has_summary_a1 codec_ok_browser getHistory_empty)
  from auxiliary_failures_are_isolated
    [OF g, where pg = initial_page and ls = Map.empty and s = summary_a1 and hs = "[]"] h r f
  show ?thesis by simp
qed

text \<open>
  C3 as stated fails: the canonical fetch succeeds and the report fetch fails, but the
  stored history is the text \<^verbatim>\<open>42\<close>, which \<^verbatim>\<open>getHistory\<close> returns unchecked;
  \<^verbatim>\<open>addToHistory\<close> throws, the page ends in the error state and nothing is recorded.
\<close>

theorem unchecked_history_counterexample:
  "getAssessment (browser (assessment_server (Inl (TypeError ''Failed to fetch'')) (Inr (ai_envelope ''Narrative''))))
     ''a1'' = Inr assessment_a1 \<and>
   getAssessmentReport (browser (assessment_server (Inl (TypeError ''Failed to fetch'')) (Inr (ai_envelope ''Narrative''))))
     ''a1'' = Inl (TypeError ''Failed to fetch'') \<and>
   getHistory (browser (assessment_server (Inl (TypeError ''Failed to fetch'')) (Inr (ai_envelope ''Narrative''))))
     [HISTORY_KEY \<mapsto> ''42''] = Num 42 \<and>
   fetchData (browser (assessment_server (Inl (TypeError ''Failed to fetch'')) (Inr (ai_envelope ''Narrative''))))
     ''a1'' (initial_page, [HISTORY_KEY \<mapsto> ''42''])
   = (\<lparr> data = assessment_a1, reportMd = Str [], aiMd = Str ''Narrative'', loading = False,
        error = Some ''current.filter is not a function'' \<rparr>,
      [HISTORY_KEY \<mapsto> ''42''])"
proof -
  let ?P = "browser (assessment_server (Inl (TypeError ''Failed to fetch'')) (Inr (ai_envelope ''Narrative'')))"
  have r: "getAssessmentReport ?P ''a1'' = Inl (TypeError ''Failed to fetch'')"
    by (simp add: getAssessmentReport_def request_rejected browser_simps server_a1)
  have n: "getAssessmentAI ?P ''a1'' = Inr (Str ''Narrative'')"
    by (simp add: getAssessmentAI_def ai_envelope_def request_a1_ai js_or_def)
  have g: "getHistory ?P [HISTORY_KEY \<mapsto> ''42''] = Num 42"
    by (simp add: getHistory_def browser_simps parse_42)
  have a: "addToHistory ?P (item_json summary_a1) [HISTORY_KEY \<mapsto> ''42'']
      = Inl (TypeError ''current.filter is not a function'')"
    by (simp add: addToHistory_def g)
  show ?thesis
    using history_item_summary [OF has_summary_a1]
    by (simp add: fetchData_def getAssessment_a1 r n g a catch_finally_def initial_page_def)
qed

text \<open>
  C1 (as amended). When \<^verbatim>\<open>getAssessment\<close> succeeds with an assessment record and both
  auxiliary operations succeed, \<^verbatim>\<open>fetchData\<close> delivers the record and the two texts
  exactly as the operations returned them (either may be the empty string), and the
  history read afterwards has the record's summary at the front and no other entry with
  its id.
\<close>

theorem all_fetches_succeed:
  assumes "getAssessment P i = Inr a" and "getAssessmentReport P i = Inr report"
    and "getAssessmentAI P i = Inr ai" and "has_summary a s"
    and "codec_ok P" and "getHistory P ls = history_json hs"
  shows "\<exists>ls1 hs1.
     fetchData P i (pg, ls) = (pg \<lparr> data := a, reportMd := report, aiMd := ai, loading := False \<rparr>, ls1) \<and>
     getHistory P ls1 = history_json hs1 \<and>
     hs1 = s # filter (\<lambda>h. item_id h \<noteq> item_id s) hs \<and>
     filter (\<lambda>h. item_id h = item_id s) hs1 = [s]"
  using fetchData_recorded [OF assms(1,4,6), of pg] getHistory_written [OF assms(5), of ls "inserted s hs"]
    assms(2,3)
  by (auto simp: inserted_def)

text \<open>Both texts present: the page has the record and both texts, the history the entry.\<close>

theorem all_fetches_succeed_witness:
  "fetchData (browser (assessment_server (Inr (report_envelope ''Report'')) (Inr (ai_envelope ''Narrative''))))
     ''a1'' (initial_page, Map.empty)
   = (\<lparr> data = assessment_a1, reportMd = Str ''Report'', aiMd = Str ''Narrative'', loading = False, error = None \<rparr>,
      [HISTORY_KEY \<mapsto> stringify (history_json [summary_a1])]) \<and>
   getHistory (browser (assessment_server (Inr (report_envelope ''Report'')) (Inr (ai_envelope ''Narrative''))))
     [HISTORY_KEY \<mapsto> stringify (history_json [summary_a1])] = history_json [summary_a1]"
proof -
  let ?P = "browser (assessment_server (Inr (report_envelope ''Report'')) (Inr (ai_envelope ''Narrative'')))"
  have r: "getAssessmentReport ?P ''a1'' = Inr (Str ''Report'')"
    by (simp add: getAssessmentReport_def report_envelope_def request_a1_report js_or_def)
  have n: "getAssessmentAI ?P ''a1'' = Inr (Str ''Narrative'')"
    by (simp add: getAssessmentAI_def ai_envelope_def request_a1_ai js_or_def)
  have f: "fetchData ?P ''a1'' (initial_page, Map.empty)
      = (\<lparr> data = assessment_a1, reportMd = Str ''Report'', aiMd = Str ''Narrative'', loading = False, error = None \<rparr>,
         [HISTORY_KEY \<mapsto> stringify (history_json [summary_a1])])"
    using fetchData_recorded [OF getAssessment_a1 has_summary_a1 getHistory_empty, of _ _ initial_page]
    by (simp add: r n initial_page_def inserted_def browser_simps)
  from all_fetches_succeed
    [OF getAssessment_a1 r n has_summary_a1 codec_ok_browser getHistory_empty, of initial_page] f
  show ?thesis by auto
qed

text \<open>
  C1 as stated fails: all three operations succeed, the report envelope has no
  \<^verbatim>\<open>report_md\<close>, and the report text that \<^verbatim>\<open>fetchData\<close> delivers is empty.
\<close>

theorem empty_report_counterexample:
  "getAssessment (browser (assessment_server (Inr (json_response 200 ''OK'' (Obj [(''id'', Str ''a1'')])))
       (Inr (ai_envelope ''Narrative'')))) ''a1'' = Inr assessment_a1 \<and>
   getAssessmentReport (browser (assessment_server (Inr (json_response 200 ''OK'' (Obj [(''id'', Str ''a1'')])))
       (Inr (ai_envelope ''Narrative'')))) ''a1'' = Inr (Str []) \<and>
   getAssessmentAI (browser (assessment_server (Inr (json_response 200 ''OK'' (Obj [(''id'', Str ''a1'')])))
       (Inr (ai_envelope ''Narrative'')))) ''a1'' = Inr (Str ''Narrative'') \<and>
   reportMd (fst (fetchData (browser (assessment_server (Inr (json_response 200 ''OK'' (Obj [(''id'', Str ''a1'')])))
       (Inr (ai_envelope ''Narrative'')))) ''a1'' (initial_page, Map.empty))) = Str []"
proof -
  let ?P = "browser (assessment_server (Inr (json_response 200 ''OK'' (Obj [(''id'', Str ''a1'')])))
       (Inr (ai_envelope ''Narrative'')))"
  have r: "getAssessmentReport ?P ''a1'' = Inr (Str [])"
    by (simp add: getAssessmentReport_def request_a1_report js_or_def)
  have n: "getAssessmentAI ?P ''a1'' = Inr (Str ''Narrative'')"
    by (simp add: getAssessmentAI_def ai_envelope_def request_a1_ai js_or_def)
  show ?thesis
    using fetchData_recorded [OF getAssessment_a1 has_summary_a1 getHistory_empty, of _ _ initial_page]
    by (simp add: r n getAssessment_a1)
qed

end
